theory Spec2Isabelle
  imports Complex_Main "HOL-Library.AList"
begin

section \<open>Shared schema\<close>

text \<open>
  The entity types of the shared schema. Every insert type (\<open>InsertWrapper\<close>, ...) is the
  table's row type without \<open>id\<close> and \<open>createdAt\<close>; the row type is modelled as the record
  extension of the insert type by these two fields, which is what the store's
  \<^verbatim>\<open>{ ...insertWrapper, id, createdAt }\<close> builds. A column that is not declared
  \<^verbatim>\<open>notNull()\<close> is an \<open>option\<close>: \<open>None\<close> stands for a field that is \<^verbatim>\<open>null\<close> or
  missing from the object (JavaScript's \<^verbatim>\<open>undefined\<close>). Field names carry a one-letter
  prefix of their table, since several tables use the same column names.

  Identifiers and the integer columns are JavaScript numbers holding integers, modelled
  as \<open>int\<close>. A \<^verbatim>\<open>Date\<close> is a \<open>nat\<close> (a clock reading).
\<close>

type_synonym timestamp = nat

type_synonym json = string

record InsertUser =
  username :: string
  password :: string

record User = InsertUser +
  u_id :: int

record InsertWrapper =
  w_name :: string
  w_description :: "string option"
  w_baseModel :: string
  w_systemPrompt :: "string option"
  w_temperature :: "int option"
  w_maxTokens :: "int option"
  w_topP :: "int option"
  w_enableMemory :: "bool option"
  w_knowledgeBaseIntegration :: "bool option"
  w_webSearchAccess :: "bool option"
  w_userId :: int

record Wrapper = InsertWrapper +
  w_id :: int
  w_createdAt :: "timestamp option"

record InsertPrompt =
  p_name :: string
  p_content :: string
  p_description :: "string option"
  p_wrapperId :: int
  p_tags :: "string list option"

record Prompt = InsertPrompt +
  p_id :: int
  p_createdAt :: "timestamp option"

record InsertIntegration =
  i_name :: string
  i_type :: string
  i_config :: json
  i_wrapperId :: int

record Integration = InsertIntegration +
  i_id :: int
  i_createdAt :: "timestamp option"

text \<open>
  A conversation's \<open>messages\<close> column holds a JavaScript array of \<open>{role, content}\<close>
  objects. The in-memory store keeps the array object itself, and the chat handler pushes
  onto the array it reads from a stored conversation, so arrays are modelled by reference:
  a conversation holds the address of its array, and the arrays live in an explicit heap
  (see \<open>world\<close> below). The message objects are never changed after they are built and are
  kept by value.
\<close>

type_synonym addr = nat

record message =
  role :: string
  content :: string

record InsertConversation =
  c_wrapperId :: int
  c_messages :: addr

record Conversation = InsertConversation +
  c_id :: int
  c_createdAt :: "timestamp option"

text \<open>
  \<open>Partial<InsertX>\<close>: every field of the insert type may be missing. \<open>None\<close> is a key that
  is not in the object; \<open>Some v\<close> is a key present with value \<open>v\<close> (for a nullable column,
  \<open>Some None\<close> is an explicit \<^verbatim>\<open>null\<close>).
\<close>

record PartialInsertWrapper =
  pw_name :: "string option"
  pw_description :: "string option option"
  pw_baseModel :: "string option"
  pw_systemPrompt :: "string option option"
  pw_temperature :: "int option option"
  pw_maxTokens :: "int option option"
  pw_topP :: "int option option"
  pw_enableMemory :: "bool option option"
  pw_knowledgeBaseIntegration :: "bool option option"
  pw_webSearchAccess :: "bool option option"
  pw_userId :: "int option"

record PartialInsertPrompt =
  pp_name :: "string option"
  pp_content :: "string option"
  pp_description :: "string option option"
  pp_wrapperId :: "int option"
  pp_tags :: "string list option option"

record PartialInsertIntegration =
  pi_name :: "string option"
  pi_type :: "string option"
  pi_config :: "json option"
  pi_wrapperId :: "int option"

record PartialInsertConversation =
  pc_wrapperId :: "int option"
  pc_messages :: "addr option"

section \<open>The in-memory store\<close>

text \<open>
  \<open>MemStorage\<close>: five JavaScript \<open>Map\<close>s and five counters. A \<open>Map\<close> iterates in insertion
  order, \<open>set\<close> on a key that is present keeps the key's position and \<open>set\<close> on a new key
  appends: this is \<open>AList.update\<close> on an association list, with \<open>map_of\<close> for \<open>get\<close> and
  \<open>AList.delete\<close> for \<open>delete\<close>.
\<close>

record MemStorage =
  users :: "(int \<times> User) list"
  wrappers :: "(int \<times> Wrapper) list"
  prompts :: "(int \<times> Prompt) list"
  integrations :: "(int \<times> Integration) list"
  conversations :: "(int \<times> Conversation) list"
  currentUserId :: int
  currentWrapperId :: int
  currentPromptId :: int
  currentIntegrationId :: int
  currentConversationId :: int

text \<open>The store as the constructor sets it up before it adds its demo data.\<close>

definition emptyStorage :: MemStorage where
  "emptyStorage =
     \<lparr>users = [], wrappers = [], prompts = [], integrations = [], conversations = [],
      currentUserId = 1, currentWrapperId = 1, currentPromptId = 1,
      currentIntegrationId = 1, currentConversationId = 1\<rparr>"

text \<open>
  Each operation takes the store and returns its result with the store after it. The
  operations that read the clock (\<^verbatim>\<open>new Date()\<close>) take the reading as \<open>now\<close>.
\<close>

subsection \<open>Users\<close>

definition getUser :: "MemStorage \<Rightarrow> int \<Rightarrow> User option" where
  "getUser s i = map_of (users s) i"

definition getUserByUsername :: "MemStorage \<Rightarrow> string \<Rightarrow> User option" where
  "getUserByUsername s n = find (\<lambda>user. username user = n) (map snd (users s))"

definition createUser :: "MemStorage \<Rightarrow> InsertUser \<Rightarrow> User \<times> MemStorage" where
  "createUser s insertUser =
     (let i = currentUserId s;
          user = InsertUser.extend insertUser (User.fields i)
      in (user, s\<lparr>users := AList.update i user (users s), currentUserId := i + 1\<rparr>))"

subsection \<open>Wrappers\<close>

definition createWrapper :: "timestamp \<Rightarrow> MemStorage \<Rightarrow> InsertWrapper \<Rightarrow> Wrapper \<times> MemStorage" where
  "createWrapper now s insertWrapper =
     (let i = currentWrapperId s;
          createdAt = Some now;
          wrapper = InsertWrapper.extend insertWrapper (Wrapper.fields i createdAt)
      in (wrapper, s\<lparr>wrappers := AList.update i wrapper (wrappers s),
                      currentWrapperId := i + 1\<rparr>))"

definition getWrapper :: "MemStorage \<Rightarrow> int \<Rightarrow> Wrapper option" where
  "getWrapper s i = map_of (wrappers s) i"

definition getWrappersByUserId :: "MemStorage \<Rightarrow> int \<Rightarrow> Wrapper list" where
  "getWrappersByUserId s userId = filter (\<lambda>wrapper. w_userId wrapper = userId) (map snd (wrappers s))"

text \<open>\<^verbatim>\<open>{ ...wrapper, ...updatedData }\<close>: a key of \<open>updatedData\<close> replaces the wrapper's.\<close>

definition spreadWrapper :: "Wrapper \<Rightarrow> PartialInsertWrapper \<Rightarrow> Wrapper" where
  "spreadWrapper wrapper updatedData =
     wrapper\<lparr>
       w_name := (case pw_name updatedData of None \<Rightarrow> w_name wrapper | Some v \<Rightarrow> v),
       w_description := (case pw_description updatedData of None \<Rightarrow> w_description wrapper | Some v \<Rightarrow> v),
       w_baseModel := (case pw_baseModel updatedData of None \<Rightarrow> w_baseModel wrapper | Some v \<Rightarrow> v),
       w_systemPrompt := (case pw_systemPrompt updatedData of None \<Rightarrow> w_systemPrompt wrapper | Some v \<Rightarrow> v),
       w_temperature := (case pw_temperature updatedData of None \<Rightarrow> w_temperature wrapper | Some v \<Rightarrow> v),
       w_maxTokens := (case pw_maxTokens updatedData of None \<Rightarrow> w_maxTokens wrapper | Some v \<Rightarrow> v),
       w_topP := (case pw_topP updatedData of None \<Rightarrow> w_topP wrapper | Some v \<Rightarrow> v),
       w_enableMemory := (case pw_enableMemory updatedData of None \<Rightarrow> w_enableMemory wrapper | Some v \<Rightarrow> v),
       w_knowledgeBaseIntegration :=
         (case pw_knowledgeBaseIntegration updatedData of None \<Rightarrow> w_knowledgeBaseIntegration wrapper | Some v \<Rightarrow> v),
       w_webSearchAccess := (case pw_webSearchAccess updatedData of None \<Rightarrow> w_webSearchAccess wrapper | Some v \<Rightarrow> v),
       w_userId := (case pw_userId updatedData of None \<Rightarrow> w_userId wrapper | Some v \<Rightarrow> v)\<rparr>"

definition updateWrapper :: "MemStorage \<Rightarrow> int \<Rightarrow> PartialInsertWrapper \<Rightarrow> Wrapper option \<times> MemStorage" where
  "updateWrapper s i updatedData =
     (case map_of (wrappers s) i of
        None \<Rightarrow> (None, s)
      | Some wrapper \<Rightarrow>
          let updatedWrapper = spreadWrapper wrapper updatedData
          in (Some updatedWrapper, s\<lparr>wrappers := AList.update i updatedWrapper (wrappers s)\<rparr>))"

text \<open>\<open>Map.delete\<close> answers whether the key was present.\<close>

definition deleteWrapper :: "MemStorage \<Rightarrow> int \<Rightarrow> bool \<times> MemStorage" where
  "deleteWrapper s i =
     (map_of (wrappers s) i \<noteq> None, s\<lparr>wrappers := AList.delete i (wrappers s)\<rparr>)"

subsection \<open>Prompts\<close>

definition createPrompt :: "timestamp \<Rightarrow> MemStorage \<Rightarrow> InsertPrompt \<Rightarrow> Prompt \<times> MemStorage" where
  "createPrompt now s insertPrompt =
     (let i = currentPromptId s;
          createdAt = Some now;
          prompt = InsertPrompt.extend insertPrompt (Prompt.fields i createdAt)
      in (prompt, s\<lparr>prompts := AList.update i prompt (prompts s),
                     currentPromptId := i + 1\<rparr>))"

definition getPrompt :: "MemStorage \<Rightarrow> int \<Rightarrow> Prompt option" where
  "getPrompt s i = map_of (prompts s) i"

definition getPromptsByWrapperId :: "MemStorage \<Rightarrow> int \<Rightarrow> Prompt list" where
  "getPromptsByWrapperId s wrapperId =
     filter (\<lambda>prompt. p_wrapperId prompt = wrapperId) (map snd (prompts s))"

definition spreadPrompt :: "Prompt \<Rightarrow> PartialInsertPrompt \<Rightarrow> Prompt" where
  "spreadPrompt prompt updatedData =
     prompt\<lparr>
       p_name := (case pp_name updatedData of None \<Rightarrow> p_name prompt | Some v \<Rightarrow> v),
       p_content := (case pp_content updatedData of None \<Rightarrow> p_content prompt | Some v \<Rightarrow> v),
       p_description := (case pp_description updatedData of None \<Rightarrow> p_description prompt | Some v \<Rightarrow> v),
       p_wrapperId := (case pp_wrapperId updatedData of None \<Rightarrow> p_wrapperId prompt | Some v \<Rightarrow> v),
       p_tags := (case pp_tags updatedData of None \<Rightarrow> p_tags prompt | Some v \<Rightarrow> v)\<rparr>"

definition updatePrompt :: "MemStorage \<Rightarrow> int \<Rightarrow> PartialInsertPrompt \<Rightarrow> Prompt option \<times> MemStorage" where
  "updatePrompt s i updatedData =
     (case map_of (prompts s) i of
        None \<Rightarrow> (None, s)
      | Some prompt \<Rightarrow>
          let updatedPrompt = spreadPrompt prompt updatedData
          in (Some updatedPrompt, s\<lparr>prompts := AList.update i updatedPrompt (prompts s)\<rparr>))"

definition deletePrompt :: "MemStorage \<Rightarrow> int \<Rightarrow> bool \<times> MemStorage" where
  "deletePrompt s i =
     (map_of (prompts s) i \<noteq> None, s\<lparr>prompts := AList.delete i (prompts s)\<rparr>)"

subsection \<open>Integrations\<close>

definition createIntegration ::
  "timestamp \<Rightarrow> MemStorage \<Rightarrow> InsertIntegration \<Rightarrow> Integration \<times> MemStorage" where
  "createIntegration now s insertIntegration =
     (let i = currentIntegrationId s;
          createdAt = Some now;
          integration = InsertIntegration.extend insertIntegration (Integration.fields i createdAt)
      in (integration, s\<lparr>integrations := AList.update i integration (integrations s),
                          currentIntegrationId := i + 1\<rparr>))"

definition getIntegration :: "MemStorage \<Rightarrow> int \<Rightarrow> Integration option" where
  "getIntegration s i = map_of (integrations s) i"

definition getIntegrationsByWrapperId :: "MemStorage \<Rightarrow> int \<Rightarrow> Integration list" where
  "getIntegrationsByWrapperId s wrapperId =
     filter (\<lambda>integration. i_wrapperId integration = wrapperId) (map snd (integrations s))"

definition spreadIntegration :: "Integration \<Rightarrow> PartialInsertIntegration \<Rightarrow> Integration" where
  "spreadIntegration integration updatedData =
     integration\<lparr>
       i_name := (case pi_name updatedData of None \<Rightarrow> i_name integration | Some v \<Rightarrow> v),
       i_type := (case pi_type updatedData of None \<Rightarrow> i_type integration | Some v \<Rightarrow> v),
       i_config := (case pi_config updatedData of None \<Rightarrow> i_config integration | Some v \<Rightarrow> v),
       i_wrapperId := (case pi_wrapperId updatedData of None \<Rightarrow> i_wrapperId integration | Some v \<Rightarrow> v)\<rparr>"

definition updateIntegration ::
  "MemStorage \<Rightarrow> int \<Rightarrow> PartialInsertIntegration \<Rightarrow> Integration option \<times> MemStorage" where
  "updateIntegration s i updatedData =
     (case map_of (integrations s) i of
        None \<Rightarrow> (None, s)
      | Some integration \<Rightarrow>
          let updatedIntegration = spreadIntegration integration updatedData
          in (Some updatedIntegration,
              s\<lparr>integrations := AList.update i updatedIntegration (integrations s)\<rparr>))"

definition deleteIntegration :: "MemStorage \<Rightarrow> int \<Rightarrow> bool \<times> MemStorage" where
  "deleteIntegration s i =
     (map_of (integrations s) i \<noteq> None, s\<lparr>integrations := AList.delete i (integrations s)\<rparr>)"

subsection \<open>Conversations\<close>

definition createConversation ::
  "timestamp \<Rightarrow> MemStorage \<Rightarrow> InsertConversation \<Rightarrow> Conversation \<times> MemStorage" where
  "createConversation now s insertConversation =
     (let i = currentConversationId s;
          createdAt = Some now;
          conversation = InsertConversation.extend insertConversation (Conversation.fields i createdAt)
      in (conversation, s\<lparr>conversations := AList.update i conversation (conversations s),
                           currentConversationId := i + 1\<rparr>))"

definition getConversation :: "MemStorage \<Rightarrow> int \<Rightarrow> Conversation option" where
  "getConversation s i = map_of (conversations s) i"

definition getConversationsByWrapperId :: "MemStorage \<Rightarrow> int \<Rightarrow> Conversation list" where
  "getConversationsByWrapperId s wrapperId =
     filter (\<lambda>conversation. c_wrapperId conversation = wrapperId) (map snd (conversations s))"

definition spreadConversation :: "Conversation \<Rightarrow> PartialInsertConversation \<Rightarrow> Conversation" where
  "spreadConversation conversation updatedData =
     conversation\<lparr>
       c_wrapperId := (case pc_wrapperId updatedData of None \<Rightarrow> c_wrapperId conversation | Some v \<Rightarrow> v),
       c_messages := (case pc_messages updatedData of None \<Rightarrow> c_messages conversation | Some v \<Rightarrow> v)\<rparr>"

definition updateConversation ::
  "MemStorage \<Rightarrow> int \<Rightarrow> PartialInsertConversation \<Rightarrow> Conversation option \<times> MemStorage" where
  "updateConversation s i updatedData =
     (case map_of (conversations s) i of
        None \<Rightarrow> (None, s)
      | Some conversation \<Rightarrow>
          let updatedConversation = spreadConversation conversation updatedData
          in (Some updatedConversation,
              s\<lparr>conversations := AList.update i updatedConversation (conversations s)\<rparr>))"

section \<open>The model provider\<close>

text \<open>
  The generative-model client is outside the repository. A chat call is everything the
  handler hands to it: the model id, the generation settings, the fixed safety settings,
  the history and the text of the live turn. The provider is a parameter of the chat
  handler: it maps a call to the response text, or to \<open>None\<close> when the call (or reading the
  text of its response) throws.

  \<open>temperature\<close> and \<open>topP\<close> are the exact quotients, as rationals; the JavaScript values
  are the doubles nearest to them.
\<close>

record GeminiContent =
  g_role :: string
  g_parts :: "string list"

record GenerationConfig =
  temperature :: rat
  topP :: rat
  maxOutputTokens :: int

datatype HarmCategory =
    HARM_CATEGORY_HARASSMENT
  | HARM_CATEGORY_HATE_SPEECH
  | HARM_CATEGORY_SEXUALLY_EXPLICIT
  | HARM_CATEGORY_DANGEROUS_CONTENT

datatype HarmBlockThreshold = BLOCK_MEDIUM_AND_ABOVE

record ChatCall =
  call_model :: string
  call_generationConfig :: GenerationConfig
  call_safetySettings :: "(HarmCategory \<times> HarmBlockThreshold) list"
  call_history :: "GeminiContent list"
  call_text :: string

type_synonym provider = "ChatCall \<Rightarrow> string option"

section \<open>HTTP surface\<close>

text \<open>
  The state a request runs in: the store, the heap of message arrays and the next free
  array address.
\<close>

record world =
  storage :: MemStorage
  arrays :: "addr \<Rightarrow> message list"
  nextArray :: addr

definition emptyWorld :: world where
  "emptyWorld = \<lparr>storage = emptyStorage, arrays = (\<lambda>_. []), nextArray = 0\<rparr>"

text \<open>\<^verbatim>\<open>[]\<close> and an array read from a request body: a new array object.\<close>

definition newArray :: "message list \<Rightarrow> world \<Rightarrow> addr \<times> world" where
  "newArray ms wld =
     (nextArray wld,
      wld\<lparr>arrays := (arrays wld)(nextArray wld := ms), nextArray := nextArray wld + 1\<rparr>)"

text \<open>\<^verbatim>\<open>messages.push(m)\<close>: the array at the address grows in place.\<close>

definition push :: "addr \<Rightarrow> message \<Rightarrow> world \<Rightarrow> world" where
  "push a m wld = wld\<lparr>arrays := (arrays wld)(a := arrays wld a @ [m])\<rparr>"

record Usage =
  prompt_tokens :: int
  completion_tokens :: int
  total_tokens :: int

record ChatResponse =
  cr_message :: string
  cr_conversationId :: int
  cr_usage :: Usage
  cr_model :: string

text \<open>
  A response is its status and its JSON body. A conversation is serialised with the
  contents its array has at that moment.
\<close>

datatype body =
    ErrorBody string
  | ZodErrorBody "string list"
  | WrapperBody Wrapper
  | WrapperListBody "Wrapper list"
  | PromptBody Prompt
  | PromptListBody "Prompt list"
  | IntegrationBody Integration
  | IntegrationListBody "Integration list"
  | ConversationBody "Conversation \<times> message list"
  | ConversationListBody "(Conversation \<times> message list) list"
  | ChatBody ChatResponse
  | NoBody

record response =
  status :: nat
  body :: body

text \<open>
  What the handlers take from a request:
  \<^item> a path parameter is the result of \<^verbatim>\<open>parseInt\<close> on it, \<open>None\<close> for \<^verbatim>\<open>NaN\<close>;
  \<^item> a validated body is the outcome of the schema's \<^verbatim>\<open>parse\<close> on the request body: \<open>Inl\<close>
    the issues of a \<open>ZodError\<close>, \<open>Inr\<close> the parsed data. The insert schemas omit \<open>id\<close> and
    \<open>createdAt\<close> and an object schema drops the keys it does not know, so the parsed data
    has the insert type (its partial form for \<^verbatim>\<open>.partial()\<close>). A column with a database
    default is optional in the insert schema and is left out of the parsed data when the
    body leaves it out;
  \<^item> the chat body's \<open>wrapperId\<close> and \<open>conversationId\<close> are JSON integers or missing, its
    \<open>message\<close> a JSON string or missing, as the client sends them; \<^verbatim>\<open>parseInt\<close> of an
    integer is that integer.
  A handler's outer \<^verbatim>\<open>catch\<close> for errors other than a \<open>ZodError\<close> never runs on these
  inputs, since no store operation throws.
\<close>

type_synonym zod_issues = "string list"

definition respond :: "nat \<Rightarrow> body \<Rightarrow> response" where
  "respond st b = \<lparr>status = st, body = b\<rparr>"

subsection \<open>Wrappers endpoints\<close>

definition get_wrappers :: "world \<Rightarrow> response \<times> world" where
  "get_wrappers wld =
     (let userId = 1;
          wrappers = getWrappersByUserId (storage wld) userId
      in (respond 200 (WrapperListBody wrappers), wld))"

definition get_wrapper :: "world \<Rightarrow> int option \<Rightarrow> response \<times> world" where
  "get_wrapper wld param =
     (case param of
        None \<Rightarrow> (respond 400 (ErrorBody ''Invalid wrapper ID''), wld)
      | Some i \<Rightarrow>
          (case getWrapper (storage wld) i of
             None \<Rightarrow> (respond 404 (ErrorBody ''Wrapper not found''), wld)
           | Some wrapper \<Rightarrow> (respond 200 (WrapperBody wrapper), wld)))"

text \<open>\<^verbatim>\<open>req.body.userId = 1\<close> before the parse: the parsed data has user id 1.\<close>

definition post_wrappers :: "timestamp \<Rightarrow> world \<Rightarrow> zod_issues + InsertWrapper \<Rightarrow> response \<times> world" where
  "post_wrappers now wld parsed =
     (case parsed of
        Inl issues \<Rightarrow> (respond 400 (ZodErrorBody issues), wld)
      | Inr validatedData \<Rightarrow>
          let (wrapper, s') = createWrapper now (storage wld) (validatedData\<lparr>w_userId := 1\<rparr>)
          in (respond 201 (WrapperBody wrapper), wld\<lparr>storage := s'\<rparr>))"

definition put_wrapper ::
  "world \<Rightarrow> int option \<Rightarrow> zod_issues + PartialInsertWrapper \<Rightarrow> response \<times> world" where
  "put_wrapper wld param parsed =
     (case param of
        None \<Rightarrow> (respond 400 (ErrorBody ''Invalid wrapper ID''), wld)
      | Some i \<Rightarrow>
          (case parsed of
             Inl issues \<Rightarrow> (respond 400 (ZodErrorBody issues), wld)
           | Inr validatedData \<Rightarrow>
               (case updateWrapper (storage wld) i validatedData of
                  (None, s') \<Rightarrow> (respond 404 (ErrorBody ''Wrapper not found''), wld\<lparr>storage := s'\<rparr>)
                | (Some updatedWrapper, s') \<Rightarrow>
                    (respond 200 (WrapperBody updatedWrapper), wld\<lparr>storage := s'\<rparr>))))"

definition delete_wrapper :: "world \<Rightarrow> int option \<Rightarrow> response \<times> world" where
  "delete_wrapper wld param =
     (case param of
        None \<Rightarrow> (respond 400 (ErrorBody ''Invalid wrapper ID''), wld)
      | Some i \<Rightarrow>
          let (success, s') = deleteWrapper (storage wld) i
          in if \<not> success then (respond 404 (ErrorBody ''Wrapper not found''), wld\<lparr>storage := s'\<rparr>)
             else (respond 204 NoBody, wld\<lparr>storage := s'\<rparr>))"

subsection \<open>Prompts endpoints\<close>

definition get_prompts :: "world \<Rightarrow> int option \<Rightarrow> response \<times> world" where
  "get_prompts wld param =
     (case param of
        None \<Rightarrow> (respond 400 (ErrorBody ''Invalid wrapper ID''), wld)
      | Some wrapperId \<Rightarrow>
          (respond 200 (PromptListBody (getPromptsByWrapperId (storage wld) wrapperId)), wld))"

text \<open>\<^verbatim>\<open>req.body.wrapperId = wrapperId\<close> before the parse.\<close>

definition post_prompts ::
  "timestamp \<Rightarrow> world \<Rightarrow> int option \<Rightarrow> zod_issues + InsertPrompt \<Rightarrow> response \<times> world" where
  "post_prompts now wld param parsed =
     (case param of
        None \<Rightarrow> (respond 400 (ErrorBody ''Invalid wrapper ID''), wld)
      | Some wrapperId \<Rightarrow>
          (case getWrapper (storage wld) wrapperId of
             None \<Rightarrow> (respond 404 (ErrorBody ''Wrapper not found''), wld)
           | Some wrapper \<Rightarrow>
               (case parsed of
                  Inl issues \<Rightarrow> (respond 400 (ZodErrorBody issues), wld)
                | Inr validatedData \<Rightarrow>
                    let (prompt, s') =
                          createPrompt now (storage wld) (validatedData\<lparr>p_wrapperId := wrapperId\<rparr>)
                    in (respond 201 (PromptBody prompt), wld\<lparr>storage := s'\<rparr>))))"

subsection \<open>Integrations endpoints\<close>

definition get_integrations :: "world \<Rightarrow> int option \<Rightarrow> response \<times> world" where
  "get_integrations wld param =
     (case param of
        None \<Rightarrow> (respond 400 (ErrorBody ''Invalid wrapper ID''), wld)
      | Some wrapperId \<Rightarrow>
          (respond 200 (IntegrationListBody (getIntegrationsByWrapperId (storage wld) wrapperId)), wld))"

definition post_integrations ::
  "timestamp \<Rightarrow> world \<Rightarrow> int option \<Rightarrow> zod_issues + InsertIntegration \<Rightarrow> response \<times> world" where
  "post_integrations now wld param parsed =
     (case param of
        None \<Rightarrow> (respond 400 (ErrorBody ''Invalid wrapper ID''), wld)
      | Some wrapperId \<Rightarrow>
          (case getWrapper (storage wld) wrapperId of
             None \<Rightarrow> (respond 404 (ErrorBody ''Wrapper not found''), wld)
           | Some wrapper \<Rightarrow>
               (case parsed of
                  Inl issues \<Rightarrow> (respond 400 (ZodErrorBody issues), wld)
                | Inr validatedData \<Rightarrow>
                    let (integration, s') =
                          createIntegration now (storage wld) (validatedData\<lparr>i_wrapperId := wrapperId\<rparr>)
                    in (respond 201 (IntegrationBody integration), wld\<lparr>storage := s'\<rparr>))))"

subsection \<open>Conversations endpoints\<close>

definition serialise :: "world \<Rightarrow> Conversation \<Rightarrow> Conversation \<times> message list" where
  "serialise wld conversation = (conversation, arrays wld (c_messages conversation))"

definition get_conversations :: "world \<Rightarrow> int option \<Rightarrow> response \<times> world" where
  "get_conversations wld param =
     (case param of
        None \<Rightarrow> (respond 400 (ErrorBody ''Invalid wrapper ID''), wld)
      | Some wrapperId \<Rightarrow>
          (respond 200 (ConversationListBody
             (map (serialise wld) (getConversationsByWrapperId (storage wld) wrapperId))), wld))"

text \<open>
  The validated body of a new conversation is its \<open>messages\<close> array, a new array object
  made when the request body was read.
\<close>

definition post_conversations ::
  "timestamp \<Rightarrow> world \<Rightarrow> int option \<Rightarrow> zod_issues + message list \<Rightarrow> response \<times> world" where
  "post_conversations now wld param parsed =
     (case param of
        None \<Rightarrow> (respond 400 (ErrorBody ''Invalid wrapper ID''), wld)
      | Some wrapperId \<Rightarrow>
          (case getWrapper (storage wld) wrapperId of
             None \<Rightarrow> (respond 404 (ErrorBody ''Wrapper not found''), wld)
           | Some wrapper \<Rightarrow>
               (case parsed of
                  Inl issues \<Rightarrow> (respond 400 (ZodErrorBody issues), wld)
                | Inr ms \<Rightarrow>
                    let (messages, wld1) = newArray ms wld;
                        (conversation, s') =
                          createConversation now (storage wld1)
                            \<lparr>c_wrapperId = wrapperId, c_messages = messages\<rparr>
                    in (respond 201 (ConversationBody (serialise wld1 conversation)),
                        wld1\<lparr>storage := s'\<rparr>))))"

subsection \<open>Chat completion endpoint\<close>

record ChatRequest =
  chat_wrapperId :: "int option"
  chat_message :: "string option"
  chat_conversationId :: "int option"

text \<open>
  The model id for a wrapper's base model; every name but \<open>Gemini Pro Vision\<close> gives
  \<open>gemini-pro\<close>.
\<close>

definition modelName :: "Wrapper \<Rightarrow> string" where
  "modelName wrapper =
     (if w_baseModel wrapper = ''Gemini Pro'' then ''gemini-pro''
      else if w_baseModel wrapper = ''Gemini Pro Vision'' then ''gemini-pro-vision''
      else ''gemini-pro'')"

text \<open>The provider's shape of one message.\<close>

definition geminiMessage :: "message \<Rightarrow> GeminiContent" where
  "geminiMessage msg =
     (if role msg = ''system'' then
        \<lparr>g_role = ''user'', g_parts = [''(System instruction: '' @ content msg @ '')'']\<rparr>
      else if role msg = ''user'' then \<lparr>g_role = ''user'', g_parts = [content msg]\<rparr>
      else \<lparr>g_role = ''model'', g_parts = [content msg]\<rparr>)"

text \<open>
  The generation settings. \<^verbatim>\<open>wrapper.temperature ? wrapper.temperature / 100 : 0.7\<close>
  tests the stored number for truthiness: a missing value, \<^verbatim>\<open>null\<close> and \<open>0\<close> all take
  the second branch. \<^verbatim>\<open>wrapper.maxTokens || 2048\<close> does the same.
\<close>

definition generationConfig :: "Wrapper \<Rightarrow> GenerationConfig" where
  "generationConfig wrapper =
     \<lparr>temperature =
        (case w_temperature wrapper of
           None \<Rightarrow> 7 / 10
         | Some t \<Rightarrow> if t \<noteq> 0 then of_int t / 100 else 7 / 10),
      topP =
        (case w_topP wrapper of
           None \<Rightarrow> 9 / 10
         | Some t \<Rightarrow> if t \<noteq> 0 then of_int t / 100 else 9 / 10),
      maxOutputTokens =
        (case w_maxTokens wrapper of
           None \<Rightarrow> 2048
         | Some n \<Rightarrow> if n \<noteq> 0 then n else 2048)\<rparr>"

definition safetySettings :: "(HarmCategory \<times> HarmBlockThreshold) list" where
  "safetySettings =
     [(HARM_CATEGORY_HARASSMENT, BLOCK_MEDIUM_AND_ABOVE),
      (HARM_CATEGORY_HATE_SPEECH, BLOCK_MEDIUM_AND_ABOVE),
      (HARM_CATEGORY_SEXUALLY_EXPLICIT, BLOCK_MEDIUM_AND_ABOVE),
      (HARM_CATEGORY_DANGEROUS_CONTENT, BLOCK_MEDIUM_AND_ABOVE)]"

text \<open>
  The usage estimate. \<open>length\<close> is the string's \<^verbatim>\<open>.length\<close>; \<^verbatim>\<open>Math.floor(n / 4)\<close> on a
  non-negative integer is \<open>n div 4\<close>.
\<close>

definition estimatedUsage :: "string \<Rightarrow> string \<Rightarrow> Usage" where
  "estimatedUsage message responseText =
     \<lparr>prompt_tokens = int (length message) div 4,
      completion_tokens = int (length responseText) div 4,
      total_tokens = (int (length message) + int (length responseText)) div 4\<rparr>"

text \<open>
  The body of the inner \<^verbatim>\<open>try\<close> up to the response text: translate the transcript, open
  the chat on all entries but the last and send the last one's text. \<open>None\<close> is any throw
  in there, which the inner \<^verbatim>\<open>catch\<close> answers with status 500; reading the last entry of
  an empty list would throw a \<open>TypeError\<close>.
\<close>

definition sendMessage :: "provider \<Rightarrow> Wrapper \<Rightarrow> message list \<Rightarrow> string option" where
  "sendMessage provider wrapper messages =
     (let geminiMessages = map geminiMessage messages
      in (case rev geminiMessages of
            [] \<Rightarrow> None
          | lastMessage # _ \<Rightarrow>
              (case g_parts lastMessage of
                 [] \<Rightarrow> None
               | part # _ \<Rightarrow>
                   provider
                     \<lparr>call_model = modelName wrapper,
                      call_generationConfig = generationConfig wrapper,
                      call_safetySettings = safetySettings,
                      call_history = butlast geminiMessages,
                      call_text = part\<rparr>)))"

text \<open>
  The handler. \<^verbatim>\<open>!wrapperId || !message\<close> rejects a missing value, the number \<open>0\<close> and the
  empty string; \<^verbatim>\<open>if (conversationId)\<close> skips the lookup for a missing id and for \<open>0\<close>.
  When the lookup finds a conversation, \<open>messages\<close> is that conversation's own array, and
  the pushes that follow act on it.
\<close>

definition post_chat :: "provider \<Rightarrow> timestamp \<Rightarrow> world \<Rightarrow> ChatRequest \<Rightarrow> response \<times> world" where
  "post_chat provider now wld req =
     (case chat_wrapperId req of
        None \<Rightarrow> (respond 400 (ErrorBody ''Wrapper ID and message are required''), wld)
      | Some wrapperId \<Rightarrow>
     (case chat_message req of
        None \<Rightarrow> (respond 400 (ErrorBody ''Wrapper ID and message are required''), wld)
      | Some message \<Rightarrow>
     if wrapperId = 0 \<or> message = [] then
       (respond 400 (ErrorBody ''Wrapper ID and message are required''), wld)
     else
     (case getWrapper (storage wld) wrapperId of
        None \<Rightarrow> (respond 404 (ErrorBody ''Wrapper not found''), wld)
      | Some wrapper \<Rightarrow>
          let (empty, wld1) = newArray [] wld;
              conversation =
                (case chat_conversationId req of
                   None \<Rightarrow> None
                 | Some conversationId \<Rightarrow>
                     if conversationId = 0 then None
                     else getConversation (storage wld1) conversationId);
              messages = (case conversation of None \<Rightarrow> empty | Some c \<Rightarrow> c_messages c);
              wld2 =
                (case w_systemPrompt wrapper of
                   None \<Rightarrow> wld1
                 | Some systemPrompt \<Rightarrow>
                     if systemPrompt \<noteq> [] \<and> length (arrays wld1 messages) = 0
                     then push messages \<lparr>role = ''system'', content = systemPrompt\<rparr> wld1
                     else wld1);
              wld3 = push messages \<lparr>role = ''user'', content = message\<rparr> wld2
          in (case sendMessage provider wrapper (arrays wld3 messages) of
               None \<Rightarrow> (respond 500 (ErrorBody ''Error communicating with AI model''), wld3)
             | Some responseText \<Rightarrow>
                 let wld4 = push messages \<lparr>role = ''assistant'', content = responseText\<rparr> wld3;
                     (conversationId, s') =
                       (case conversation of
                          Some c \<Rightarrow>
                            (c_id c,
                             snd (updateConversation (storage wld4) (c_id c)
                                    \<lparr>pc_wrapperId = None, pc_messages = Some messages\<rparr>))
                        | None \<Rightarrow>
                            let (created, s') =
                                  createConversation now (storage wld4)
                                    \<lparr>c_wrapperId = wrapperId, c_messages = messages\<rparr>
                            in (c_id created, s'));
                     estimated = estimatedUsage message responseText
                 in (respond 200 (ChatBody
                       \<lparr>cr_message = responseText, cr_conversationId = conversationId,
                        cr_usage = estimated, cr_model = modelName wrapper\<rparr>),
                     wld4\<lparr>storage := s'\<rparr>)))))"

text \<open>The messages a conversation id resolves to: the contents of the stored array.\<close>

definition messagesOf :: "world \<Rightarrow> int \<Rightarrow> message list option" where
  "messagesOf wld i = map_option (\<lambda>c. arrays wld (c_messages c)) (getConversation (storage wld) i)"

section \<open>Well-formed states\<close>

text \<open>
  What the store's own operations keep true of the conversations: the counter is positive, a
  conversation is filed under its own id, ids are positive and below the counter, and its
  array has been allocated.
\<close>

definition world_ok :: "world \<Rightarrow> bool" where
  "world_ok wld =
     (0 < currentConversationId (storage wld) \<and>
      list_all
        (\<lambda>(k, c). c_id c = k \<and> 0 < k \<and> k < currentConversationId (storage wld)
                  \<and> c_messages c < nextArray wld)
        (conversations (storage wld)))"

section \<open>Example data\<close>

text \<open>
  Concrete inputs on which the definitions are run: a wrapper with a system prompt, one
  without, a provider that answers every call and one that always throws, and the states
  reached from the empty store by a few requests.
\<close>

definition supportWrapper :: InsertWrapper where
  "supportWrapper =
     \<lparr>w_name = ''Support'', w_description = None, w_baseModel = ''Gemini Pro'',
      w_systemPrompt = Some ''Be brief.'', w_temperature = Some 70, w_maxTokens = Some 2048,
      w_topP = Some 90, w_enableMemory = Some True, w_knowledgeBaseIntegration = Some False,
      w_webSearchAccess = Some False, w_userId = 1\<rparr>"

definition plainWrapper :: InsertWrapper where
  "plainWrapper =
     \<lparr>w_name = ''Plain'', w_description = None, w_baseModel = ''Gemini Pro Vision'',
      w_systemPrompt = None, w_temperature = Some 20, w_maxTokens = Some 256,
      w_topP = Some 50, w_enableMemory = Some True, w_knowledgeBaseIntegration = Some False,
      w_webSearchAccess = Some False, w_userId = 1\<rparr>"

definition answering :: provider where
  "answering call = Some (''Re: '' @ call_text call)"

definition throwing :: provider where
  "throwing call = None"

text \<open>Two wrappers, ids 1 and 2.\<close>

definition twoWrappers :: world where
  "twoWrappers =
     snd (post_wrappers 6 (snd (post_wrappers 5 emptyWorld (Inr supportWrapper))) (Inr plainWrapper))"

text \<open>Then one successful chat with wrapper 1 and no conversation id: conversation 1.\<close>

definition oneChat :: world where
  "oneChat =
     snd (post_chat answering 7 twoWrappers
            \<lparr>chat_wrapperId = Some 1, chat_message = Some ''Hello'', chat_conversationId = None\<rparr>)"

text \<open>Or a conversation posted for wrapper 1 with no messages: conversation 1, empty.\<close>

definition emptyConversation :: world where
  "emptyConversation = snd (post_conversations 7 twoWrappers (Some 1) (Inr []))"

text \<open>After the chat, a prompt and an integration posted for wrapper 1.\<close>

definition greetingPrompt :: InsertPrompt where
  "greetingPrompt =
     \<lparr>p_name = ''Greeting'', p_content = ''Say hello.'', p_description = None,
      p_wrapperId = 1, p_tags = Some [''intro'']\<rparr>"

definition searchIntegration :: InsertIntegration where
  "searchIntegration =
     \<lparr>i_name = ''Search'', i_type = ''api'', i_config = ''{}'', i_wrapperId = 1\<rparr>"

definition populated :: world where
  "populated =
     snd (post_integrations 9
            (snd (post_prompts 8 oneChat (Some 1) (Inr greetingPrompt)))
            (Some 1) (Inr searchIntegration))"

section \<open>Running the examples\<close>

text \<open>
  The response's selectors, the definitions a run of the handlers unfolds, and the example
  states written out.
\<close>

lemma respond_sel [simp]: "status (respond st b) = st" "body (respond st b) = b"
  by (simp_all add: respond_def)

lemmas run_defs =
  post_chat_def post_conversations_def post_wrappers_def newArray_def push_def sendMessage_def
  geminiMessage_def modelName_def messagesOf_def getWrapper_def getConversation_def
  createWrapper_def createConversation_def updateConversation_def spreadConversation_def
  InsertWrapper.defs Wrapper.defs InsertConversation.defs Conversation.defs
  emptyWorld_def emptyStorage_def supportWrapper_def plainWrapper_def answering_def throwing_def
  Let_def

lemma twoWrappers_eq:
  "twoWrappers =
     \<lparr>storage = \<lparr>users = [],
        wrappers = [(1, InsertWrapper.extend supportWrapper (Wrapper.fields 1 (Some 5))),
                    (2, InsertWrapper.extend plainWrapper (Wrapper.fields 2 (Some 6)))],
        prompts = [], integrations = [], conversations = [],
        currentUserId = 1, currentWrapperId = 3, currentPromptId = 1,
        currentIntegrationId = 1, currentConversationId = 1\<rparr>,
      arrays = (\<lambda>_. []), nextArray = 0\<rparr>"
  by (simp add: twoWrappers_def run_defs)

lemma oneChat_eq:
  "oneChat =
     \<lparr>storage = (storage twoWrappers)
        \<lparr>conversations := [(1, \<lparr>c_wrapperId = 1, c_messages = 0, c_id = 1, c_createdAt = Some 7\<rparr>)],
         currentConversationId := 2\<rparr>,
      arrays = (\<lambda>_. [])(0 := [\<lparr>role = ''system'', content = ''Be brief.''\<rparr>,
                               \<lparr>role = ''user'', content = ''Hello''\<rparr>,
                               \<lparr>role = ''assistant'', content = ''Re: Hello''\<rparr>]),
      nextArray = 1\<rparr>"
  by (simp add: oneChat_def twoWrappers_eq run_defs)

lemma emptyConversation_eq:
  "emptyConversation =
     \<lparr>storage = (storage twoWrappers)
        \<lparr>conversations := [(1, \<lparr>c_wrapperId = 1, c_messages = 0, c_id = 1, c_createdAt = Some 7\<rparr>)],
         currentConversationId := 2\<rparr>,
      arrays = (\<lambda>_. [])(0 := []),
      nextArray = 1\<rparr>"
  by (simp add: emptyConversation_def twoWrappers_eq run_defs)

lemma populated_eq:
  "populated =
     oneChat\<lparr>storage := (storage oneChat)
       \<lparr>prompts := [(1, InsertPrompt.extend greetingPrompt (Prompt.fields 1 (Some 8)))],
        integrations := [(1, InsertIntegration.extend searchIntegration (Integration.fields 1 (Some 9)))],
        currentPromptId := 2, currentIntegrationId := 2\<rparr>\<rparr>"
  by (simp add: populated_def post_prompts_def post_integrations_def createPrompt_def
        createIntegration_def greetingPrompt_def searchIntegration_def InsertPrompt.defs Prompt.defs
        InsertIntegration.defs Integration.defs oneChat_eq twoWrappers_eq getWrapper_def Let_def)

lemma first_chat:
  "post_chat answering 7 twoWrappers
     \<lparr>chat_wrapperId = Some 1, chat_message = Some ''Hello'', chat_conversationId = None\<rparr> =
   (respond 200 (ChatBody
      \<lparr>cr_message = ''Re: Hello'', cr_conversationId = 1,
       cr_usage = estimatedUsage ''Hello'' ''Re: Hello'', cr_model = ''gemini-pro''\<rparr>),
    oneChat)"
  by (simp add: oneChat_eq) (simp add: twoWrappers_eq run_defs)


section \<open>The chat handler, case by case\<close>

text \<open>
  The handler's result in each of its four cases: the request is rejected, the wrapper is
  unknown, no stored conversation is found (a new array is filled and, if the provider
  answers, filed as a new conversation), or a stored conversation is found (its own array
  is extended). \<open>post_chat_cases\<close> says that these are all the cases.
\<close>

lemma sendMessage_snoc:
  "sendMessage provider wrapper (ms @ [\<lparr>role = ''user'', content = message\<rparr>]) =
     provider \<lparr>call_model = modelName wrapper,
               call_generationConfig = generationConfig wrapper,
               call_safetySettings = safetySettings,
               call_history = map geminiMessage ms,
               call_text = message\<rparr>"
  by (simp add: sendMessage_def geminiMessage_def)

lemma post_chat_rejected:
  assumes "chat_wrapperId req = None \<or> chat_wrapperId req = Some 0
           \<or> chat_message req = None \<or> chat_message req = Some []"
  shows "post_chat provider now wld req =
           (respond 400 (ErrorBody ''Wrapper ID and message are required''), wld)"
  using assms by (auto simp: post_chat_def split: option.splits)

lemma post_chat_no_wrapper:
  assumes "chat_wrapperId req = Some wid" "wid \<noteq> 0" "chat_message req = Some message"
    "message \<noteq> []" "getWrapper (storage wld) wid = None"
  shows "post_chat provider now wld req = (respond 404 (ErrorBody ''Wrapper not found''), wld)"
  using assms by (simp add: post_chat_def)

lemma post_chat_fresh:
  assumes w: "chat_wrapperId req = Some wid" "wid \<noteq> 0" "chat_message req = Some message"
      "message \<noteq> []" "getWrapper (storage wld) wid = Some wrapper"
    and c: "chat_conversationId req = None \<or> chat_conversationId req = Some 0
            \<or> (\<exists>cid. chat_conversationId req = Some cid \<and> getConversation (storage wld) cid = None)"
  shows "post_chat provider now wld req =
     (let seed = (case w_systemPrompt wrapper of
                    None \<Rightarrow> []
                  | Some sp \<Rightarrow> if sp \<noteq> [] then [\<lparr>role = ''system'', content = sp\<rparr>] else []);
          transcript = seed @ [\<lparr>role = ''user'', content = message\<rparr>];
          i = currentConversationId (storage wld)
      in case sendMessage provider wrapper transcript of
           None \<Rightarrow>
             (respond 500 (ErrorBody ''Error communicating with AI model''),
              \<lparr>storage = storage wld,
               arrays = (arrays wld)(nextArray wld := transcript),
               nextArray = nextArray wld + 1\<rparr>)
         | Some r \<Rightarrow>
             (respond 200 (ChatBody
                \<lparr>cr_message = r, cr_conversationId = i,
                 cr_usage = estimatedUsage message r, cr_model = modelName wrapper\<rparr>),
              \<lparr>storage = (storage wld)
                 \<lparr>conversations :=
                    AList.update i
                      \<lparr>c_wrapperId = wid, c_messages = nextArray wld, c_id = i,
                       c_createdAt = Some now\<rparr>
                      (conversations (storage wld)),
                  currentConversationId := i + 1\<rparr>,
               arrays = (arrays wld)(nextArray wld :=
                          transcript @ [\<lparr>role = ''assistant'', content = r\<rparr>]),
               nextArray = nextArray wld + 1\<rparr>))"
proof -
  have look: "(case chat_conversationId req of
                 None \<Rightarrow> None
               | Some conversationId \<Rightarrow>
                   if conversationId = 0 then None
                   else getConversation (storage wld) conversationId) = None"
    using c by (auto split: option.splits)
  show ?thesis
    using w look
    by (cases "w_systemPrompt wrapper")
       (auto simp: post_chat_def newArray_def push_def Let_def createConversation_def
             InsertConversation.defs Conversation.defs split: option.splits)
qed

lemma updateConversation_same:
  "map_of (conversations s) i = Some c \<Longrightarrow>
   updateConversation s i \<lparr>pc_wrapperId = None, pc_messages = Some (c_messages c)\<rparr> = (Some c, s)"
  by (simp add: updateConversation_def spreadConversation_def AList.update_triv)

lemma post_chat_existing:
  assumes w: "chat_wrapperId req = Some wid" "wid \<noteq> 0" "chat_message req = Some message"
      "message \<noteq> []" "getWrapper (storage wld) wid = Some wrapper"
    and c: "chat_conversationId req = Some cid" "cid \<noteq> 0"
      "getConversation (storage wld) cid = Some c" "c_id c = cid" "c_messages c < nextArray wld"
  shows "post_chat provider now wld req =
     (let prior = arrays wld (c_messages c);
          seed = (case w_systemPrompt wrapper of
                    None \<Rightarrow> []
                  | Some sp \<Rightarrow>
                      if sp \<noteq> [] \<and> prior = [] then [\<lparr>role = ''system'', content = sp\<rparr>] else []);
          transcript = prior @ seed @ [\<lparr>role = ''user'', content = message\<rparr>]
      in case sendMessage provider wrapper transcript of
           None \<Rightarrow>
             (respond 500 (ErrorBody ''Error communicating with AI model''),
              \<lparr>storage = storage wld,
               arrays = (arrays wld)(nextArray wld := [], c_messages c := transcript),
               nextArray = nextArray wld + 1\<rparr>)
         | Some r \<Rightarrow>
             (respond 200 (ChatBody
                \<lparr>cr_message = r, cr_conversationId = cid,
                 cr_usage = estimatedUsage message r, cr_model = modelName wrapper\<rparr>),
              \<lparr>storage = storage wld,
               arrays = (arrays wld)(nextArray wld := [],
                          c_messages c := transcript @ [\<lparr>role = ''assistant'', content = r\<rparr>]),
               nextArray = nextArray wld + 1\<rparr>))"
proof -
  have m: "map_of (conversations (storage wld)) cid = Some c"
    using c(3) by (simp add: getConversation_def)
  show ?thesis
    using w c m
    by (cases "w_systemPrompt wrapper")
       (auto simp: post_chat_def newArray_def push_def Let_def getConversation_def
             updateConversation_same split: option.splits)
qed

lemma post_chat_cases:
  obtains
    (rejected) "post_chat provider now wld req =
                  (respond 400 (ErrorBody ''Wrapper ID and message are required''), wld)"
  | (no_wrapper) "post_chat provider now wld req =
                  (respond 404 (ErrorBody ''Wrapper not found''), wld)"
  | (fresh) wid message wrapper where
      "chat_wrapperId req = Some wid" "wid \<noteq> 0" "chat_message req = Some message"
      "message \<noteq> []" "getWrapper (storage wld) wid = Some wrapper"
      "chat_conversationId req = None \<or> chat_conversationId req = Some 0
         \<or> (\<exists>cid. chat_conversationId req = Some cid \<and> getConversation (storage wld) cid = None)"
  | (existing) wid message wrapper cid c where
      "chat_wrapperId req = Some wid" "wid \<noteq> 0" "chat_message req = Some message"
      "message \<noteq> []" "getWrapper (storage wld) wid = Some wrapper"
      "chat_conversationId req = Some cid" "cid \<noteq> 0" "getConversation (storage wld) cid = Some c"
proof (cases "chat_wrapperId req = None \<or> chat_wrapperId req = Some 0
           \<or> chat_message req = None \<or> chat_message req = Some []")
  case True
  then show ?thesis using post_chat_rejected rejected by blast
next
  case False
  then obtain wid message where a: "chat_wrapperId req = Some wid" "wid \<noteq> 0"
      "chat_message req = Some message" "message \<noteq> []"
    by auto
  show ?thesis
  proof (cases "getWrapper (storage wld) wid")
    case None
    with a show ?thesis using post_chat_no_wrapper no_wrapper by blast
  next
    case (Some wrapper)
    show ?thesis
    proof (cases "chat_conversationId req")
      case None
      with a Some show ?thesis using fresh by blast
    next
      case cid: (Some cid)
      show ?thesis
      proof (cases "cid = 0")
        case True
        with a Some cid show ?thesis using fresh by blast
      next
        case nz: False
        show ?thesis
        proof (cases "getConversation (storage wld) cid")
          case None
          with a Some cid show ?thesis using fresh by blast
        next
          case c: (Some c)
          with a Some cid nz show ?thesis using existing by blast
        qed
      qed
    qed
  qed
qed

lemma post_chat_usage:
  assumes "post_chat provider now wld req = (res, wld')" "status res = 200"
  shows "\<exists>message cr. chat_message req = Some message \<and> body res = ChatBody cr
           \<and> cr_usage cr = estimatedUsage message (cr_message cr)"
  using assms
  by (auto simp: post_chat_def Let_def split_beta split: option.splits if_splits)

section \<open>Well-formed states are kept\<close>

text \<open>
  The empty state is well formed and every handler that touches conversations or arrays
  keeps a state well formed, so every state the server reaches is.
\<close>

lemma world_ok_lookup:
  assumes "world_ok wld" "getConversation (storage wld) cid = Some c"
  shows "c_id c = cid \<and> 0 < cid \<and> cid < currentConversationId (storage wld)
         \<and> c_messages c < nextArray wld"
proof -
  from assms(2) have "(cid, c) \<in> set (conversations (storage wld))"
    by (simp add: getConversation_def map_of_SomeD)
  with assms(1) show ?thesis
    by (auto simp: world_ok_def list_all_iff)
qed

lemma list_all_update:
  "list_all P al \<Longrightarrow> P (k, v) \<Longrightarrow> list_all P (AList.update k v al)"
  by (induction al) auto

lemma world_ok_emptyWorld: "world_ok emptyWorld"
  by (simp add: world_ok_def emptyWorld_def emptyStorage_def)

lemma world_ok_weaken:
  assumes "world_ok wld" "conversations (storage wld') = conversations (storage wld)"
    "currentConversationId (storage wld) \<le> currentConversationId (storage wld')"
    "nextArray wld \<le> nextArray wld'"
  shows "world_ok wld'"
  using assms by (fastforce simp: world_ok_def list_all_iff)

lemma world_ok_added:
  assumes "world_ok wld"
    "conversations (storage wld') =
       AList.update (currentConversationId (storage wld)) c (conversations (storage wld))"
    "currentConversationId (storage wld') = currentConversationId (storage wld) + 1"
    "nextArray wld \<le> nextArray wld'"
    "c_id c = currentConversationId (storage wld)" "0 < currentConversationId (storage wld)"
    "c_messages c < nextArray wld'"
  shows "world_ok wld'"
proof -
  let ?P = "\<lambda>(k, c). c_id c = k \<and> 0 < k \<and> k < currentConversationId (storage wld')
                 \<and> c_messages c < nextArray wld'"
  have "list_all ?P (conversations (storage wld))"
    using assms(1,3,4) by (fastforce simp: world_ok_def list_all_iff)
  moreover have "?P (currentConversationId (storage wld), c)"
    using assms(3,5,6,7) by simp
  ultimately have "list_all ?P (conversations (storage wld'))"
    unfolding assms(2) by (rule list_all_update)
  then show ?thesis
    using assms(3,6) by (simp add: world_ok_def)
qed

lemma world_ok_post_chat:
  assumes ok: "world_ok wld"
  shows "world_ok (snd (post_chat provider now wld req))"
proof (cases rule: post_chat_cases [of provider now wld req])
  case rejected
  then show ?thesis using ok by simp
next
  case no_wrapper
  then show ?thesis using ok by simp
next
  case (fresh wid message wrapper)
  have pos: "0 < currentConversationId (storage wld)"
    using ok by (simp add: world_ok_def)
  let ?t = "(case w_systemPrompt wrapper of
               None \<Rightarrow> []
             | Some sp \<Rightarrow> if sp \<noteq> [] then [\<lparr>role = ''system'', content = sp\<rparr>] else [])
            @ [\<lparr>role = ''user'', content = message\<rparr>]"
  show ?thesis
  proof (cases "sendMessage provider wrapper ?t")
    case None
    then show ?thesis
      unfolding post_chat_fresh [OF fresh] Let_def
      by (auto intro!: world_ok_weaken [OF ok])
  next
    case (Some r)
    then show ?thesis
      unfolding post_chat_fresh [OF fresh] Let_def
      by (auto intro!: world_ok_added [OF ok] pos)
  qed
next
  case (existing wid message wrapper cid c)
  note inv = world_ok_lookup [OF ok existing(8)]
  show ?thesis
    unfolding post_chat_existing [OF existing(1-8) conjunct1 [OF inv]
        conjunct2 [OF conjunct2 [OF conjunct2 [OF inv]]]] Let_def
    by (auto split: option.split intro!: world_ok_weaken [OF ok])
qed

lemma world_ok_post_conversations:
  assumes ok: "world_ok wld"
  shows "world_ok (snd (post_conversations now wld param parsed))"
proof -
  have pos: "0 < currentConversationId (storage wld)"
    using ok by (simp add: world_ok_def)
  show ?thesis
    by (auto simp: post_conversations_def newArray_def createConversation_def Let_def
          InsertConversation.defs Conversation.defs ok
          split: option.split sum.split intro!: world_ok_added [OF ok] pos)
qed

lemma world_ok_other_handlers:
  assumes ok: "world_ok wld"
  shows "world_ok (snd (post_wrappers now wld pw))"
    and "world_ok (snd (put_wrapper wld param uw))"
    and "world_ok (snd (delete_wrapper wld param))"
    and "world_ok (snd (post_prompts now wld param pp))"
    and "world_ok (snd (post_integrations now wld param pg))"
  by (auto simp: post_wrappers_def put_wrapper_def delete_wrapper_def post_prompts_def
        post_integrations_def createWrapper_def updateWrapper_def deleteWrapper_def
        createPrompt_def createIntegration_def Let_def ok
        split: option.split sum.split prod.split intro!: world_ok_weaken [OF ok])

lemma world_ok_examples: "world_ok twoWrappers" "world_ok oneChat" "world_ok emptyConversation"
  by (simp_all add: world_ok_def oneChat_eq emptyConversation_eq twoWrappers_eq)

section \<open>A failed model call\<close>

text \<open>
  C1. A chat request whose model call fails is to leave the conversation store exactly as
  it was and answer 500. The handler writes to the store only after the provider has
  answered, and the store's maps are indeed the same after a failed call
  (\<open>post_chat_existing\<close>, \<open>post_chat_fresh\<close>). But when the request names a stored
  conversation, \<open>messages\<close> is the stored conversation's own array, and the user message
  has been pushed onto it before the call: after the 500 the store is the same record,
  and the conversation that id 1 resolves to ends with the user message of the failed
  request.
\<close>

theorem failed_chat_extends_stored_conversation:
  "messagesOf oneChat 1 =
     Some [\<lparr>role = ''system'', content = ''Be brief.''\<rparr>,
           \<lparr>role = ''user'', content = ''Hello''\<rparr>,
           \<lparr>role = ''assistant'', content = ''Re: Hello''\<rparr>]
   \<and> fst (post_chat throwing 8 oneChat
        \<lparr>chat_wrapperId = Some 1, chat_message = Some ''Again'', chat_conversationId = Some 1\<rparr>) =
      respond 500 (ErrorBody ''Error communicating with AI model'')
   \<and> messagesOf (snd (post_chat throwing 8 oneChat
        \<lparr>chat_wrapperId = Some 1, chat_message = Some ''Again'', chat_conversationId = Some 1\<rparr>)) 1 =
     Some [\<lparr>role = ''system'', content = ''Be brief.''\<rparr>,
           \<lparr>role = ''user'', content = ''Hello''\<rparr>,
           \<lparr>role = ''assistant'', content = ''Re: Hello''\<rparr>,
           \<lparr>role = ''user'', content = ''Again''\<rparr>]
   \<and> storage (snd (post_chat throwing 8 oneChat
        \<lparr>chat_wrapperId = Some 1, chat_message = Some ''Again'', chat_conversationId = Some 1\<rparr>)) =
     storage oneChat"
  by (simp add: oneChat_eq twoWrappers_eq run_defs)

section \<open>A chat without a conversation id\<close>

text \<open>
  C2. A successful chat request that carries no conversation id files a conversation for
  the request's wrapper, and the conversation id of the response resolves to exactly: the
  system message with the wrapper's system prompt, the user message and the assistant
  message when the system prompt is not empty; the user message and the assistant message
  when the system prompt is empty or missing.
\<close>

theorem chat_new_conversation:
  assumes w: "getWrapper (storage wld) wrapperId = Some wrapper"
    and run: "post_chat provider now wld
           \<lparr>chat_wrapperId = Some wrapperId, chat_message = Some message,
            chat_conversationId = None\<rparr> = (res, wld')"
    and ok: "status res = 200"
  shows "\<exists>cr. body res = ChatBody cr
           \<and> map_option c_wrapperId (getConversation (storage wld') (cr_conversationId cr))
               = Some wrapperId
           \<and> (\<forall>sp. w_systemPrompt wrapper = Some sp \<and> sp \<noteq> [] \<longrightarrow>
                 messagesOf wld' (cr_conversationId cr) =
                   Some [\<lparr>role = ''system'', content = sp\<rparr>,
                         \<lparr>role = ''user'', content = message\<rparr>,
                         \<lparr>role = ''assistant'', content = cr_message cr\<rparr>])
           \<and> (w_systemPrompt wrapper = None \<or> w_systemPrompt wrapper = Some [] \<longrightarrow>
                 messagesOf wld' (cr_conversationId cr) =
                   Some [\<lparr>role = ''user'', content = message\<rparr>,
                         \<lparr>role = ''assistant'', content = cr_message cr\<rparr>])"
proof -
  let ?req = "\<lparr>chat_wrapperId = Some wrapperId, chat_message = Some message,
               chat_conversationId = None\<rparr>"
  have nz: "wrapperId \<noteq> 0 \<and> message \<noteq> []"
  proof (rule ccontr)
    assume "\<not> (wrapperId \<noteq> 0 \<and> message \<noteq> [])"
    then have "post_chat provider now wld ?req =
                 (respond 400 (ErrorBody ''Wrapper ID and message are required''), wld)"
      by (intro post_chat_rejected) auto
    with run ok show False by auto
  qed
  let ?seed = "case w_systemPrompt wrapper of
                 None \<Rightarrow> []
               | Some sp \<Rightarrow> if sp \<noteq> [] then [\<lparr>role = ''system'', content = sp\<rparr>] else []"
  let ?t = "?seed @ [\<lparr>role = ''user'', content = message\<rparr>]"
  have eq: "post_chat provider now wld ?req = (res, wld')" by (rule run)
  note fresh = post_chat_fresh [of ?req wrapperId message wld wrapper provider now]
  show ?thesis
  proof (cases "sendMessage provider wrapper ?t")
    case None
    with fresh nz w eq ok show ?thesis by (auto simp: Let_def)
  next
    case (Some r)
    with fresh nz w eq have
      "res = respond 200 (ChatBody
                \<lparr>cr_message = r, cr_conversationId = currentConversationId (storage wld),
                 cr_usage = estimatedUsage message r, cr_model = modelName wrapper\<rparr>)"
      "wld' = \<lparr>storage = (storage wld)
                 \<lparr>conversations :=
                    AList.update (currentConversationId (storage wld))
                      \<lparr>c_wrapperId = wrapperId, c_messages = nextArray wld,
                       c_id = currentConversationId (storage wld), c_createdAt = Some now\<rparr>
                      (conversations (storage wld)),
                  currentConversationId := currentConversationId (storage wld) + 1\<rparr>,
               arrays = (arrays wld)(nextArray wld :=
                          ?t @ [\<lparr>role = ''assistant'', content = r\<rparr>]),
               nextArray = nextArray wld + 1\<rparr>"
      by (auto simp: Let_def)
    then show ?thesis
      by (auto simp: messagesOf_def getConversation_def AList.update_conv')
  qed
qed

text \<open>
  The theorem at the first chat of the example: wrapper 1 has a system prompt.
\<close>

theorem chat_new_conversation_witness:
  "getWrapper (storage twoWrappers) 1 =
     Some (InsertWrapper.extend supportWrapper (Wrapper.fields 1 (Some 5)))
   \<and> post_chat answering 7 twoWrappers
        \<lparr>chat_wrapperId = Some 1, chat_message = Some ''Hello'', chat_conversationId = None\<rparr> =
      (respond 200 (ChatBody
         \<lparr>cr_message = ''Re: Hello'', cr_conversationId = 1,
          cr_usage = estimatedUsage ''Hello'' ''Re: Hello'', cr_model = ''gemini-pro''\<rparr>),
       oneChat)
   \<and> messagesOf oneChat 1 =
        Some [\<lparr>role = ''system'', content = ''Be brief.''\<rparr>,
              \<lparr>role = ''user'', content = ''Hello''\<rparr>,
              \<lparr>role = ''assistant'', content = ''Re: Hello''\<rparr>]"
proof -
  have w: "getWrapper (storage twoWrappers) 1 =
     Some (InsertWrapper.extend supportWrapper (Wrapper.fields 1 (Some 5)))"
    by (simp add: twoWrappers_eq getWrapper_def)
  from chat_new_conversation [OF w first_chat] w first_chat show ?thesis
    by (simp add: supportWrapper_def InsertWrapper.defs Wrapper.defs)
qed

section \<open>A chat that continues a conversation\<close>





section \<open>The usage estimate\<close>

lemma floor_quarter: "\<lfloor>rat_of_nat n / 4\<rfloor> = int n div 4"
  using floor_divide_of_int_eq [of "int n" 4, where ?'a = rat] by simp

lemma estimatedUsage_floor:
  "prompt_tokens (estimatedUsage m r) = \<lfloor>rat_of_nat (length m) / 4\<rfloor>"
  "completion_tokens (estimatedUsage m r) = \<lfloor>rat_of_nat (length r) / 4\<rfloor>"
  "total_tokens (estimatedUsage m r) = \<lfloor>rat_of_nat (length m + length r) / 4\<rfloor>"
  by (simp_all add: estimatedUsage_def floor_quarter del: of_nat_add)

lemma estimatedUsage_total:
  "prompt_tokens (estimatedUsage m r) + completion_tokens (estimatedUsage m r)
     \<le> total_tokens (estimatedUsage m r)"
  "total_tokens (estimatedUsage m r)
     \<le> prompt_tokens (estimatedUsage m r) + completion_tokens (estimatedUsage m r) + 1"
  by (simp_all add: estimatedUsage_def)

text \<open>
  C4, as stated, fails: "usage is the ceiling of a quarter of the character count, and
  the total is the sum of the two". For a message and a response of three characters each
  the response reports 0 and 0, where the ceiling is 1, and a total of 1, where the sum
  is 0.
\<close>

theorem usage_ceiling_counterexample:
  "fst (post_chat (\<lambda>call. Some ''def'') 7 twoWrappers
     \<lparr>chat_wrapperId = Some 2, chat_message = Some ''abc'', chat_conversationId = None\<rparr>) =
   respond 200 (ChatBody
      \<lparr>cr_message = ''def'', cr_conversationId = 1,
       cr_usage = \<lparr>prompt_tokens = 0, completion_tokens = 0, total_tokens = 1\<rparr>,
       cr_model = ''gemini-pro-vision''\<rparr>)
   \<and> prompt_tokens (estimatedUsage ''abc'' ''def'') \<noteq> \<lceil>rat_of_nat (length ''abc'') / 4\<rceil>
   \<and> completion_tokens (estimatedUsage ''abc'' ''def'') \<noteq> \<lceil>rat_of_nat (length ''def'') / 4\<rceil>
   \<and> total_tokens (estimatedUsage ''abc'' ''def'') \<noteq>
       prompt_tokens (estimatedUsage ''abc'' ''def'') + completion_tokens (estimatedUsage ''abc'' ''def'')"
proof -
  have "\<lceil>rat_of_nat (length ''abc'') / 4\<rceil> = 1" "\<lceil>rat_of_nat (length ''def'') / 4\<rceil> = 1"
    by (simp_all add: ceiling_eq_iff)
  moreover have "fst (post_chat (\<lambda>call. Some ''def'') 7 twoWrappers
     \<lparr>chat_wrapperId = Some 2, chat_message = Some ''abc'', chat_conversationId = None\<rparr>) =
   respond 200 (ChatBody
      \<lparr>cr_message = ''def'', cr_conversationId = 1,
       cr_usage = \<lparr>prompt_tokens = 0, completion_tokens = 0, total_tokens = 1\<rparr>,
       cr_model = ''gemini-pro-vision''\<rparr>)"
    by (simp add: twoWrappers_eq run_defs estimatedUsage_def)
  ultimately show ?thesis
    by (simp add: estimatedUsage_def)
qed

text \<open>
  C4, amended. For every successful chat response the reported \<open>prompt_tokens\<close> is the
  floor of a quarter of the message's length, \<open>completion_tokens\<close> the floor of a quarter
  of the response text's length, and \<open>total_tokens\<close> the floor of a quarter of the sum of
  both lengths, which is the sum of the two counts or one more. A prompt of 12 characters
  with a response of 24 gives 3, 6 and 9.
\<close>

theorem chat_usage_is_floor:
  assumes "post_chat provider now wld req = (res, wld')" "status res = 200"
  shows "\<exists>message cr. chat_message req = Some message \<and> body res = ChatBody cr
     \<and> prompt_tokens (cr_usage cr) = \<lfloor>rat_of_nat (length message) / 4\<rfloor>
     \<and> completion_tokens (cr_usage cr) = \<lfloor>rat_of_nat (length (cr_message cr)) / 4\<rfloor>
     \<and> total_tokens (cr_usage cr) = \<lfloor>rat_of_nat (length message + length (cr_message cr)) / 4\<rfloor>
     \<and> prompt_tokens (cr_usage cr) + completion_tokens (cr_usage cr) \<le> total_tokens (cr_usage cr)
     \<and> total_tokens (cr_usage cr) \<le> prompt_tokens (cr_usage cr) + completion_tokens (cr_usage cr) + 1
     \<and> (length message = 12 \<and> length (cr_message cr) = 24 \<longrightarrow>
          prompt_tokens (cr_usage cr) = 3 \<and> completion_tokens (cr_usage cr) = 6
          \<and> total_tokens (cr_usage cr) = 9)"
proof -
  from post_chat_usage [OF assms] obtain message cr where
    m: "chat_message req = Some message" and b: "body res = ChatBody cr"
    and u: "cr_usage cr = estimatedUsage message (cr_message cr)"
    by blast
  have ex: "length message = 12 \<and> length (cr_message cr) = 24 \<longrightarrow>
          prompt_tokens (cr_usage cr) = 3 \<and> completion_tokens (cr_usage cr) = 6
          \<and> total_tokens (cr_usage cr) = 9"
    by (simp add: u estimatedUsage_def)
  show ?thesis
    using m b ex estimatedUsage_floor [of message "cr_message cr"]
      estimatedUsage_total [of message "cr_message cr"]
    by (intro exI [of _ message] exI [of _ cr]) (simp add: u)
qed

text \<open>
  The theorem at a chat with a message of 12 characters answered by 24.
\<close>

theorem chat_usage_is_floor_witness:
  "post_chat (\<lambda>call. Some ''This text has 24 symbols'') 7 twoWrappers
     \<lparr>chat_wrapperId = Some 2, chat_message = Some ''Hello, world'', chat_conversationId = None\<rparr> =
   (respond 200 (ChatBody
      \<lparr>cr_message = ''This text has 24 symbols'', cr_conversationId = 1,
       cr_usage = \<lparr>prompt_tokens = 3, completion_tokens = 6, total_tokens = 9\<rparr>,
       cr_model = ''gemini-pro-vision''\<rparr>),
    snd (post_chat (\<lambda>call. Some ''This text has 24 symbols'') 7 twoWrappers
     \<lparr>chat_wrapperId = Some 2, chat_message = Some ''Hello, world'', chat_conversationId = None\<rparr>))
   \<and> length ''Hello, world'' = 12 \<and> length ''This text has 24 symbols'' = 24"
proof -
  let ?p = "\<lambda>call::ChatCall. Some ''This text has 24 symbols''"
  let ?req = "\<lparr>chat_wrapperId = Some 2, chat_message = Some ''Hello, world'',
               chat_conversationId = None\<rparr>"
  have run: "post_chat ?p 7 twoWrappers ?req =
               (fst (post_chat ?p 7 twoWrappers ?req), snd (post_chat ?p 7 twoWrappers ?req))"
    by simp
  have f: "fst (post_chat ?p 7 twoWrappers ?req) =
     respond 200 (ChatBody
      \<lparr>cr_message = ''This text has 24 symbols'', cr_conversationId = 1,
       cr_usage = estimatedUsage ''Hello, world'' ''This text has 24 symbols'',
       cr_model = ''gemini-pro-vision''\<rparr>)"
    by (simp add: twoWrappers_eq run_defs)
  have st: "status (fst (post_chat ?p 7 twoWrappers ?req)) = 200"
    by (simp add: f)
  from chat_usage_is_floor [OF run st] f show ?thesis
    by (auto simp: prod_eq_iff)
qed

section \<open>Generation settings\<close>

text \<open>
  For a stored value other than 0 the settings are the stored temperature and top-p
  divided by 100 and the stored token limit; stored 70 and 90 give 7/10 and 9/10.
\<close>

lemma generationConfig_scaled:
  "w_temperature wrapper = Some t \<Longrightarrow> t \<noteq> 0 \<Longrightarrow>
     temperature (generationConfig wrapper) = of_int t / 100"
  "w_topP wrapper = Some p \<Longrightarrow> p \<noteq> 0 \<Longrightarrow> topP (generationConfig wrapper) = of_int p / 100"
  "w_maxTokens wrapper = Some n \<Longrightarrow> n \<noteq> 0 \<Longrightarrow> maxOutputTokens (generationConfig wrapper) = n"
  by (simp_all add: generationConfig_def)

lemma generationConfig_defaults:
  "generationConfig (wrapper\<lparr>w_temperature := Some 70, w_topP := Some 90, w_maxTokens := Some 2048\<rparr>) =
     \<lparr>temperature = 7 / 10, topP = 9 / 10, maxOutputTokens = 2048\<rparr>"
  by (simp add: generationConfig_def)

text \<open>
  C5. The model request is to be built with the stored temperature and top-p divided by
  100 for every stored value from 0 to 100. At the stored value 0 the truthiness test
  takes the fallback: temperature 0 is sent as 7/10 and top-p 0 as 9/10, not as 0, and
  these are the settings of the call the provider gets.
\<close>

theorem generationConfig_stored_zero:
  "generationConfig (wrapper\<lparr>w_temperature := Some 0, w_topP := Some 0\<rparr>) =
     \<lparr>temperature = 7 / 10, topP = 9 / 10,
      maxOutputTokens = maxOutputTokens (generationConfig wrapper)\<rparr>
   \<and> temperature (generationConfig (wrapper\<lparr>w_temperature := Some 0, w_topP := Some 0\<rparr>))
       \<noteq> of_int 0 / 100
   \<and> topP (generationConfig (wrapper\<lparr>w_temperature := Some 0, w_topP := Some 0\<rparr>))
       \<noteq> of_int 0 / 100
   \<and> sendMessage provider (wrapper\<lparr>w_temperature := Some 0, w_topP := Some 0\<rparr>)
         (ms @ [\<lparr>role = ''user'', content = message\<rparr>]) =
       provider
         \<lparr>call_model = modelName wrapper,
          call_generationConfig =
            \<lparr>temperature = 7 / 10, topP = 9 / 10,
             maxOutputTokens = maxOutputTokens (generationConfig wrapper)\<rparr>,
          call_safetySettings = safetySettings,
          call_history = map geminiMessage ms,
          call_text = message\<rparr>"
  by (simp add: sendMessage_snoc) (simp add: generationConfig_def modelName_def)

section \<open>Creating a wrapper\<close>

text \<open>
  C6. A wrapper created from the required fields alone is to have temperature 70, a
  token limit of 2048, top-p 90 and memory enabled. The store copies the validated data
  and adds the id and the creation time, nothing else: the record that is returned and
  stored has no temperature, token limit, top-p or memory flag at all.
\<close>

theorem post_wrappers_required_fields_only:
  "post_wrappers now wld
     (Inr \<lparr>w_name = n, w_description = None, w_baseModel = b, w_systemPrompt = None,
           w_temperature = None, w_maxTokens = None, w_topP = None, w_enableMemory = None,
           w_knowledgeBaseIntegration = None, w_webSearchAccess = None, w_userId = u\<rparr>) =
   (respond 201 (WrapperBody
      \<lparr>w_name = n, w_description = None, w_baseModel = b, w_systemPrompt = None,
       w_temperature = None, w_maxTokens = None, w_topP = None, w_enableMemory = None,
       w_knowledgeBaseIntegration = None, w_webSearchAccess = None, w_userId = 1,
       w_id = currentWrapperId (storage wld), w_createdAt = Some now\<rparr>),
    wld\<lparr>storage := (storage wld)
      \<lparr>wrappers := AList.update (currentWrapperId (storage wld))
          \<lparr>w_name = n, w_description = None, w_baseModel = b, w_systemPrompt = None,
           w_temperature = None, w_maxTokens = None, w_topP = None, w_enableMemory = None,
           w_knowledgeBaseIntegration = None, w_webSearchAccess = None, w_userId = 1,
           w_id = currentWrapperId (storage wld), w_createdAt = Some now\<rparr>
          (wrappers (storage wld)),
       currentWrapperId := currentWrapperId (storage wld) + 1\<rparr>\<rparr>)"
  by (simp add: post_wrappers_def createWrapper_def InsertWrapper.defs Wrapper.defs Let_def)

section \<open>Posting a prompt to an unknown wrapper\<close>

text \<open>
  C7. When the wrapper id of the path resolves to no wrapper, posting a prompt answers 404
  and leaves the state as it was: no prompt is filed and the prompt counter stays. (A
  path parameter that is not a number is answered with 400 before the lookup.)
\<close>

theorem post_prompts_unknown_wrapper:
  assumes "getWrapper (storage wld) wrapperId = None"
  shows "post_prompts now wld (Some wrapperId) parsed =
           (respond 404 (ErrorBody ''Wrapper not found''), wld)"
  using assms by (simp add: post_prompts_def)

text \<open>
  The theorem at wrapper id 3 of the example, which has wrappers 1 and 2.
\<close>

theorem post_prompts_unknown_wrapper_witness:
  "getWrapper (storage populated) 3 = None
   \<and> post_prompts 10 populated (Some 3) (Inr greetingPrompt) =
       (respond 404 (ErrorBody ''Wrapper not found''), populated)
   \<and> map fst (prompts (storage populated)) = [1] \<and> currentPromptId (storage populated) = 2"
proof -
  have none: "getWrapper (storage populated) 3 = None"
    by (simp add: populated_eq oneChat_eq twoWrappers_eq getWrapper_def)
  from post_prompts_unknown_wrapper [OF none] none show ?thesis
    by (simp add: populated_eq)
qed

section \<open>Updating a record\<close>

lemma update_missing:
  "getWrapper s i = None \<Longrightarrow> updateWrapper s i uw = (None, s)"
  "getPrompt s i = None \<Longrightarrow> updatePrompt s i up = (None, s)"
  "getIntegration s i = None \<Longrightarrow> updateIntegration s i ui = (None, s)"
  "getConversation s i = None \<Longrightarrow> updateConversation s i uc = (None, s)"
  by (simp_all add: updateWrapper_def getWrapper_def updatePrompt_def getPrompt_def
        updateIntegration_def getIntegration_def updateConversation_def getConversation_def)

lemma put_wrapper_missing:
  "getWrapper (storage wld) i = None \<Longrightarrow>
   put_wrapper wld (Some i) (Inr u) = (respond 404 (ErrorBody ''Wrapper not found''), wld)"
  by (simp add: put_wrapper_def update_missing)

text \<open>
  C8. For each of the four kinds with an update operation: updating a stored record
  returns and stores the record with every supplied field set to the supplied value and
  every other field, the id and the creation time among them, as it was; updating an id
  that is not stored returns nothing and leaves the store as it was, which the wrapper
  endpoint answers with 404.
\<close>

theorem update_merges_partial_fields:
  "(\<forall>w. getWrapper s i = Some w \<longrightarrow>
     (\<exists>w'. updateWrapper s i uw = (Some w', s\<lparr>wrappers := AList.update i w' (wrappers s)\<rparr>)
       \<and> getWrapper (snd (updateWrapper s i uw)) i = Some w'
       \<and> w_id w' = w_id w \<and> w_createdAt w' = w_createdAt w
       \<and> w_name w' = (case pw_name uw of None \<Rightarrow> w_name w | Some v \<Rightarrow> v)
       \<and> w_description w' = (case pw_description uw of None \<Rightarrow> w_description w | Some v \<Rightarrow> v)
       \<and> w_baseModel w' = (case pw_baseModel uw of None \<Rightarrow> w_baseModel w | Some v \<Rightarrow> v)
       \<and> w_systemPrompt w' = (case pw_systemPrompt uw of None \<Rightarrow> w_systemPrompt w | Some v \<Rightarrow> v)
       \<and> w_temperature w' = (case pw_temperature uw of None \<Rightarrow> w_temperature w | Some v \<Rightarrow> v)
       \<and> w_maxTokens w' = (case pw_maxTokens uw of None \<Rightarrow> w_maxTokens w | Some v \<Rightarrow> v)
       \<and> w_topP w' = (case pw_topP uw of None \<Rightarrow> w_topP w | Some v \<Rightarrow> v)
       \<and> w_enableMemory w' = (case pw_enableMemory uw of None \<Rightarrow> w_enableMemory w | Some v \<Rightarrow> v)
       \<and> w_knowledgeBaseIntegration w' =
           (case pw_knowledgeBaseIntegration uw of None \<Rightarrow> w_knowledgeBaseIntegration w | Some v \<Rightarrow> v)
       \<and> w_webSearchAccess w' = (case pw_webSearchAccess uw of None \<Rightarrow> w_webSearchAccess w | Some v \<Rightarrow> v)
       \<and> w_userId w' = (case pw_userId uw of None \<Rightarrow> w_userId w | Some v \<Rightarrow> v)))
   \<and> (\<forall>p. getPrompt s i = Some p \<longrightarrow>
     (\<exists>p'. updatePrompt s i up = (Some p', s\<lparr>prompts := AList.update i p' (prompts s)\<rparr>)
       \<and> getPrompt (snd (updatePrompt s i up)) i = Some p'
       \<and> p_id p' = p_id p \<and> p_createdAt p' = p_createdAt p
       \<and> p_name p' = (case pp_name up of None \<Rightarrow> p_name p | Some v \<Rightarrow> v)
       \<and> p_content p' = (case pp_content up of None \<Rightarrow> p_content p | Some v \<Rightarrow> v)
       \<and> p_description p' = (case pp_description up of None \<Rightarrow> p_description p | Some v \<Rightarrow> v)
       \<and> p_wrapperId p' = (case pp_wrapperId up of None \<Rightarrow> p_wrapperId p | Some v \<Rightarrow> v)
       \<and> p_tags p' = (case pp_tags up of None \<Rightarrow> p_tags p | Some v \<Rightarrow> v)))
   \<and> (\<forall>g. getIntegration s i = Some g \<longrightarrow>
     (\<exists>g'. updateIntegration s i ui =
                   (Some g', s\<lparr>integrations := AList.update i g' (integrations s)\<rparr>)
       \<and> getIntegration (snd (updateIntegration s i ui)) i = Some g'
       \<and> i_id g' = i_id g \<and> i_createdAt g' = i_createdAt g
       \<and> i_name g' = (case pi_name ui of None \<Rightarrow> i_name g | Some v \<Rightarrow> v)
       \<and> i_type g' = (case pi_type ui of None \<Rightarrow> i_type g | Some v \<Rightarrow> v)
       \<and> i_config g' = (case pi_config ui of None \<Rightarrow> i_config g | Some v \<Rightarrow> v)
       \<and> i_wrapperId g' = (case pi_wrapperId ui of None \<Rightarrow> i_wrapperId g | Some v \<Rightarrow> v)))
   \<and> (\<forall>c. getConversation s i = Some c \<longrightarrow>
     (\<exists>c'. updateConversation s i uc =
                   (Some c', s\<lparr>conversations := AList.update i c' (conversations s)\<rparr>)
       \<and> getConversation (snd (updateConversation s i uc)) i = Some c'
       \<and> c_id c' = c_id c \<and> c_createdAt c' = c_createdAt c
       \<and> c_wrapperId c' = (case pc_wrapperId uc of None \<Rightarrow> c_wrapperId c | Some v \<Rightarrow> v)
       \<and> c_messages c' = (case pc_messages uc of None \<Rightarrow> c_messages c | Some v \<Rightarrow> v)))
   \<and> (getWrapper s i = None \<longrightarrow> updateWrapper s i uw = (None, s))
   \<and> (getPrompt s i = None \<longrightarrow> updatePrompt s i up = (None, s))
   \<and> (getIntegration s i = None \<longrightarrow> updateIntegration s i ui = (None, s))
   \<and> (getConversation s i = None \<longrightarrow> updateConversation s i uc = (None, s))
   \<and> (getWrapper (storage wld) i = None \<longrightarrow>
        put_wrapper wld (Some i) (Inr uw) = (respond 404 (ErrorBody ''Wrapper not found''), wld))"
  by (simp add: updateWrapper_def getWrapper_def spreadWrapper_def
        updatePrompt_def getPrompt_def spreadPrompt_def
        updateIntegration_def getIntegration_def spreadIntegration_def
        updateConversation_def getConversation_def spreadConversation_def
        put_wrapper_def AList.update_conv' Let_def)

text \<open>
  The theorem at id 1 of the example, stored for every kind, and at id 7, stored for
  none.
\<close>

theorem update_merges_partial_fields_witness:
  "(let s = storage populated;
        uw = \<lparr>pw_name = None, pw_description = None, pw_baseModel = None, pw_systemPrompt = None,
              pw_temperature = Some (Some 30), pw_maxTokens = None, pw_topP = None,
              pw_enableMemory = None, pw_knowledgeBaseIntegration = None,
              pw_webSearchAccess = None, pw_userId = None\<rparr>;
        up = \<lparr>pp_name = None, pp_content = Some ''Say hi.'', pp_description = None,
              pp_wrapperId = None, pp_tags = None\<rparr>;
        ui = \<lparr>pi_name = None, pi_type = Some ''database'', pi_config = None, pi_wrapperId = None\<rparr>;
        uc = \<lparr>pc_wrapperId = Some 2, pc_messages = None\<rparr>
    in map_option w_id (getWrapper s 1) = Some 1
       \<and> map_option (\<lambda>w. (w_id w, w_createdAt w, w_name w, w_temperature w, w_topP w))
             (fst (updateWrapper s 1 uw)) = Some (1, Some 5, ''Support'', Some 30, Some 90)
       \<and> map_option (\<lambda>p. (p_id p, p_createdAt p, p_name p, p_content p))
             (fst (updatePrompt s 1 up)) = Some (1, Some 8, ''Greeting'', ''Say hi.'')
       \<and> map_option (\<lambda>g. (i_id g, i_createdAt g, i_name g, i_type g))
             (fst (updateIntegration s 1 ui)) = Some (1, Some 9, ''Search'', ''database'')
       \<and> map_option (\<lambda>c. (c_id c, c_createdAt c, c_wrapperId c, c_messages c))
             (fst (updateConversation s 1 uc)) = Some (1, Some 7, 2, 0)
       \<and> getWrapper s 7 = None \<and> updateWrapper s 7 uw = (None, s)
       \<and> updatePrompt s 7 up = (None, s) \<and> updateIntegration s 7 ui = (None, s)
       \<and> updateConversation s 7 uc = (None, s)
       \<and> put_wrapper populated (Some 7) (Inr uw) =
            (respond 404 (ErrorBody ''Wrapper not found''), populated))"
proof -
  let ?s = "storage populated"
  let ?uw = "\<lparr>pw_name = None, pw_description = None, pw_baseModel = None, pw_systemPrompt = None,
              pw_temperature = Some (Some 30), pw_maxTokens = None, pw_topP = None,
              pw_enableMemory = None, pw_knowledgeBaseIntegration = None,
              pw_webSearchAccess = None, pw_userId = None\<rparr>"
  let ?up = "\<lparr>pp_name = None, pp_content = Some ''Say hi.'', pp_description = None,
              pp_wrapperId = None, pp_tags = None\<rparr>"
  let ?ui = "\<lparr>pi_name = None, pi_type = Some ''database'', pi_config = None, pi_wrapperId = None\<rparr>"
  let ?uc = "\<lparr>pc_wrapperId = Some 2, pc_messages = None\<rparr>"
  have found:
    "getWrapper ?s 1 = Some (InsertWrapper.extend supportWrapper (Wrapper.fields 1 (Some 5)))"
    "getPrompt ?s 1 = Some (InsertPrompt.extend greetingPrompt (Prompt.fields 1 (Some 8)))"
    "getIntegration ?s 1 =
       Some (InsertIntegration.extend searchIntegration (Integration.fields 1 (Some 9)))"
    "getConversation ?s 1 = Some \<lparr>c_wrapperId = 1, c_messages = 0, c_id = 1, c_createdAt = Some 7\<rparr>"
    by (simp_all add: populated_eq oneChat_eq twoWrappers_eq getWrapper_def getPrompt_def
          getIntegration_def getConversation_def)
  have missing:
    "getWrapper ?s 7 = None" "getPrompt ?s 7 = None" "getIntegration ?s 7 = None"
    "getConversation ?s 7 = None"
    by (simp_all add: populated_eq oneChat_eq twoWrappers_eq getWrapper_def getPrompt_def
          getIntegration_def getConversation_def)
  from update_merges_partial_fields [of ?s 1 ?uw ?up ?ui ?uc populated]
    update_merges_partial_fields [of ?s 7 ?uw ?up ?ui ?uc populated]
    found missing
  show ?thesis
    by (auto simp: Let_def supportWrapper_def greetingPrompt_def searchIntegration_def
          InsertWrapper.defs Wrapper.defs InsertPrompt.defs Prompt.defs
          InsertIntegration.defs Integration.defs)
qed

section \<open>Deleting a wrapper\<close>



section \<open>A conversation of another wrapper\<close>

text \<open>
  C10. The chat handler does not compare the conversation's wrapper with the request's.
  When the conversation id resolves to a conversation of another wrapper, the provider is
  still called on that conversation's messages, extended for the requested wrapper, and
  when it answers, the new turns are in that same conversation, which stays filed under
  its own wrapper; no conversation is created.
\<close>

theorem chat_ignores_conversation_owner:
  assumes ok: "world_ok wld"
    and w: "getWrapper (storage wld) wrapperId = Some wrapper"
    and nz: "wrapperId \<noteq> 0" "message \<noteq> []"
    and c: "getConversation (storage wld) conversationId = Some c"
    and other: "c_wrapperId c \<noteq> wrapperId"
    and run: "post_chat provider now wld
           \<lparr>chat_wrapperId = Some wrapperId, chat_message = Some message,
            chat_conversationId = Some conversationId\<rparr> = (res, wld')"
  shows "let prior = arrays wld (c_messages c);
             seed = (case w_systemPrompt wrapper of
                       None \<Rightarrow> []
                     | Some sp \<Rightarrow>
                         if sp \<noteq> [] \<and> prior = [] then [\<lparr>role = ''system'', content = sp\<rparr>]
                         else []);
             transcript = prior @ seed @ [\<lparr>role = ''user'', content = message\<rparr>]
         in storage wld' = storage wld
            \<and> (sendMessage provider wrapper transcript = None \<longrightarrow>
                 status res = 500 \<and> messagesOf wld' conversationId = Some transcript)
            \<and> (\<forall>r. sendMessage provider wrapper transcript = Some r \<longrightarrow>
                 res = respond 200 (ChatBody
                         \<lparr>cr_message = r, cr_conversationId = conversationId,
                          cr_usage = estimatedUsage message r, cr_model = modelName wrapper\<rparr>)
                 \<and> messagesOf wld' conversationId =
                     Some (transcript @ [\<lparr>role = ''assistant'', content = r\<rparr>]))"
proof -
  let ?req = "\<lparr>chat_wrapperId = Some wrapperId, chat_message = Some message,
               chat_conversationId = Some conversationId\<rparr>"
  note inv = world_ok_lookup [OF ok c]
  note ex = post_chat_existing [of ?req wrapperId message wld wrapper conversationId c provider now]
  have eq: "post_chat provider now wld ?req = (res, wld')" by (rule run)
  let ?prior = "arrays wld (c_messages c)"
  let ?seed = "case w_systemPrompt wrapper of
                 None \<Rightarrow> []
               | Some sp \<Rightarrow>
                   if sp \<noteq> [] \<and> ?prior = [] then [\<lparr>role = ''system'', content = sp\<rparr>] else []"
  let ?t = "?prior @ ?seed @ [\<lparr>role = ''user'', content = message\<rparr>]"
  show ?thesis
  proof (cases "sendMessage provider wrapper ?t")
    case None
    with ex nz w c inv eq show ?thesis
      by (auto simp: Let_def messagesOf_def)
  next
    case (Some r)
    with ex nz w c inv eq show ?thesis
      by (auto simp: Let_def messagesOf_def)
  qed
qed

text \<open>
  The theorem at the example: conversation 1 belongs to wrapper 1, the request is for
  wrapper 2.
\<close>

theorem chat_ignores_conversation_owner_witness:
  "world_ok oneChat
   \<and> map_option c_wrapperId (getConversation (storage oneChat) 1) = Some 1
   \<and> post_chat answering 8 oneChat
        \<lparr>chat_wrapperId = Some 2, chat_message = Some ''More'', chat_conversationId = Some 1\<rparr> =
      (respond 200 (ChatBody
         \<lparr>cr_message = ''Re: More'', cr_conversationId = 1,
          cr_usage = estimatedUsage ''More'' ''Re: More'', cr_model = ''gemini-pro-vision''\<rparr>),
       snd (post_chat answering 8 oneChat
        \<lparr>chat_wrapperId = Some 2, chat_message = Some ''More'', chat_conversationId = Some 1\<rparr>))
   \<and> messagesOf (snd (post_chat answering 8 oneChat
        \<lparr>chat_wrapperId = Some 2, chat_message = Some ''More'', chat_conversationId = Some 1\<rparr>)) 1 =
        Some [\<lparr>role = ''system'', content = ''Be brief.''\<rparr>,
              \<lparr>role = ''user'', content = ''Hello''\<rparr>,
              \<lparr>role = ''assistant'', content = ''Re: Hello''\<rparr>,
              \<lparr>role = ''user'', content = ''More''\<rparr>,
              \<lparr>role = ''assistant'', content = ''Re: More''\<rparr>]
   \<and> map_option c_wrapperId (getConversation (storage (snd (post_chat answering 8 oneChat
        \<lparr>chat_wrapperId = Some 2, chat_message = Some ''More'', chat_conversationId = Some 1\<rparr>))) 1)
       = Some 1"
proof -
  let ?req = "\<lparr>chat_wrapperId = Some 2, chat_message = Some ''More'', chat_conversationId = Some 1\<rparr>"
  let ?c = "\<lparr>c_wrapperId = 1, c_messages = 0, c_id = 1, c_createdAt = Some 7\<rparr>"
  let ?w = "InsertWrapper.extend plainWrapper (Wrapper.fields 2 (Some 6))"
  have ok: "world_ok oneChat"
    by (simp add: world_ok_def oneChat_eq twoWrappers_eq)
  have w: "getWrapper (storage oneChat) 2 = Some ?w"
    by (simp add: oneChat_eq twoWrappers_eq getWrapper_def)
  have c: "getConversation (storage oneChat) 1 = Some ?c"
    by (simp add: oneChat_eq twoWrappers_eq getConversation_def)
  have other: "c_wrapperId ?c \<noteq> 2" by simp
  have run: "post_chat answering 8 oneChat ?req =
               (fst (post_chat answering 8 oneChat ?req), snd (post_chat answering 8 oneChat ?req))"
    by simp
  have send: "sendMessage answering ?w
      ([\<lparr>role = ''system'', content = ''Be brief.''\<rparr>,
        \<lparr>role = ''user'', content = ''Hello''\<rparr>,
        \<lparr>role = ''assistant'', content = ''Re: Hello''\<rparr>] @ [\<lparr>role = ''user'', content = ''More''\<rparr>])
       = Some ''Re: More''"
    unfolding sendMessage_snoc by (simp add: answering_def)
  have arr: "arrays oneChat 0 = [\<lparr>role = ''system'', content = ''Be brief.''\<rparr>,
        \<lparr>role = ''user'', content = ''Hello''\<rparr>,
        \<lparr>role = ''assistant'', content = ''Re: Hello''\<rparr>]"
    by (simp add: oneChat_eq)
  have nosys: "w_systemPrompt ?w = None" "modelName ?w = ''gemini-pro-vision''"
    by (simp_all add: plainWrapper_def InsertWrapper.defs Wrapper.defs modelName_def)
  from chat_ignores_conversation_owner [OF ok w _ _ c other run] send arr nosys ok c
  show ?thesis
    by (simp add: Let_def prod_eq_iff)
qed

end
